theory Spec2Isabelle
  imports Main
begin

section \<open>The account-deletion request handler\<close>

text \<open>
  The handler is the function given to \<^verbatim>\<open>Deno.serve\<close> in the second document of
  \<^verbatim>\<open>src/src/pages/BusinessProfile.tsx\<close> (lines 395 to 550). It reads a JSON body
  \<^verbatim>\<open>{action, user_id}\<close>, talks to the table \<^verbatim>\<open>account_deletion_requests\<close> through
  the Supabase client and answers with a JSON response.

  The model passes the table explicitly. The handler awaits the storage once or twice;
  between two awaits other invocations may run. An invocation is therefore a small
  state machine (\<open>step\<close>): one step runs the handler up to and including its next
  storage round trip. \<open>serve\<close> is an invocation that runs with nothing in between;
  \<open>run\<close> interleaves several invocations on one table. What the source throws is a
  value of \<open>thrown\<close>; the \<^verbatim>\<open>catch\<close> of the source turns it into the 500 response.
  What \<^verbatim>\<open>console.log\<close> and \<^verbatim>\<open>console.error\<close> print is left out; the conversion to
  text that line 422 performs, and that can throw, is kept.
\<close>

subsection \<open>JavaScript values\<close>

text \<open>
  The values \<^verbatim>\<open>JSON.parse\<close> produces, and \<^verbatim>\<open>undefined\<close> for a member that is not
  there. A number is kept as the text JavaScript prints for it (\<^verbatim>\<open>String(n)\<close>, so both
  zeros are \<^verbatim>\<open>0\<close>): the handler uses a number only through this text and through
  its truth value. An object is the list of its members, in the order of the text.
\<close>

datatype jsval =
    JUndefined
  | JNull
  | JBool bool
  | JNum string
  | JStr string
  | JArr "jsval list"
  | JObj "(string \<times> jsval) list"

text \<open>\<^verbatim>\<open>!user_id\<close> is true on the falsy values of JavaScript; arrays and objects are truthy.\<close>

fun truthy :: "jsval \<Rightarrow> bool" where
  "truthy JUndefined = False"
| "truthy JNull = False"
| "truthy (JBool b) = b"
| "truthy (JNum n) = (n \<noteq> ''0'')"
| "truthy (JStr s) = (s \<noteq> [])"
| "truthy (JArr xs) = True"
| "truthy (JObj kvs) = True"

fun join :: "string list \<Rightarrow> string" where
  "join [] = []"
| "join [x] = x"
| "join (x # y # zs) = x @ '','' @ join (y # zs)"

text \<open>
  The conversion to text of a template literal (\<^verbatim>\<open>`${v}`\<close>, ECMAScript \<^verbatim>\<open>ToString\<close>);
  \<open>None\<close> is a thrown \<^verbatim>\<open>TypeError\<close>. An array joins the texts of its elements with
  commas, \<^verbatim>\<open>null\<close> and \<^verbatim>\<open>undefined\<close> elements giving the empty text. A parsed object
  prints as \<^verbatim>\<open>[object Object]\<close> through the inherited \<^verbatim>\<open>toString\<close>; when it has a
  member named \<^verbatim>\<open>toString\<close> of its own, that member is not a function (no parsed
  value is), the inherited \<^verbatim>\<open>valueOf\<close> gives back the object, and the conversion
  throws.
\<close>

fun to_text :: "jsval \<Rightarrow> string option" where
  "to_text JUndefined = Some ''undefined''"
| "to_text JNull = Some ''null''"
| "to_text (JBool b) = Some (if b then ''true'' else ''false'')"
| "to_text (JNum n) = Some n"
| "to_text (JStr s) = Some s"
| "to_text (JArr xs) =
     map_option join
       (those (map (\<lambda>x. if x = JUndefined \<or> x = JNull then Some [] else to_text x) xs))"
| "to_text (JObj kvs) =
     (if ''toString'' \<in> set (map fst kvs) then None else Some ''[object Object]'')"

subsection \<open>Requests\<close>

text \<open>The body of the request: text that is not JSON, or the value it parses to.\<close>

datatype payload = NotJson | Json jsval

record request =
  http_method :: string
  json_body :: payload

datatype storage_error = PostgrestError (code: string)

datatype thrown = SyntaxError | TypeError | Storage storage_error

text \<open>
  \<^verbatim>\<open>error instanceof Error\<close>: the two JavaScript errors are instances of \<^verbatim>\<open>Error\<close>, the
  error object handed back by the storage client is a plain object.
\<close>

fun instanceof_Error :: "thrown \<Rightarrow> bool" where
  "instanceof_Error SyntaxError = True"
| "instanceof_Error TypeError = True"
| "instanceof_Error (Storage e) = False"

text \<open>Reading a member of a parsed object: the last of several equal keys wins.\<close>

definition get_prop :: "(string \<times> jsval) list \<Rightarrow> string \<Rightarrow> jsval" where
  "get_prop kvs k = (case map_of (rev kvs) k of None \<Rightarrow> JUndefined | Some v \<Rightarrow> v)"

text \<open>
  \<^verbatim>\<open>const { action, user_id } = await req.json()\<close> (line 413): parsing throws a
  \<^verbatim>\<open>SyntaxError\<close> on text that is not JSON, destructuring throws a \<^verbatim>\<open>TypeError\<close> on
  \<^verbatim>\<open>null\<close> (and \<^verbatim>\<open>undefined\<close>), and gives \<^verbatim>\<open>undefined\<close> twice on a number, a
  string, a boolean or an array.
\<close>

fun read_fields :: "payload \<Rightarrow> thrown + (jsval \<times> jsval)" where
  "read_fields NotJson = Inl SyntaxError"
| "read_fields (Json JNull) = Inl TypeError"
| "read_fields (Json JUndefined) = Inl TypeError"
| "read_fields (Json (JObj kvs)) = Inr (get_prop kvs ''action'', get_prop kvs ''user_id'')"
| "read_fields (Json v) = Inr (JUndefined, JUndefined)"

subsection \<open>What the handler takes from its surroundings\<close>

text \<open>
  Two things the handler depends on are not in the source.

  \<^item> The time zone of the runtime, as ECMAScript's \<^verbatim>\<open>LocalTZA(t, isUTC)\<close>: the offset of
    local time from UTC in milliseconds, at the UTC instant \<open>t\<close> when \<open>isUTC\<close> holds
    and at the local time \<open>t\<close> otherwise.
  \<^item> The declaration of the table: \<open>user_id_column v\<close> is the text that the column
    \<^verbatim>\<open>user_id\<close> holds once the value \<open>v\<close> has been inserted. A text column keeps a
    string as it is, and a number or a boolean as its text.
\<close>

record env =
  LocalTZA :: "int \<Rightarrow> bool \<Rightarrow> int"
  user_id_column :: "jsval \<Rightarrow> string"

definition msPerDay :: int where
  "msPerDay = 86400000"

definition LocalTime :: "env \<Rightarrow> int \<Rightarrow> int" where
  "LocalTime e t = t + LocalTZA e t True"

definition UTC :: "env \<Rightarrow> int \<Rightarrow> int" where
  "UTC e t = t - LocalTZA e t False"

text \<open>
  Lines 449 and 450, \<^verbatim>\<open>d.setDate(d.getDate() + 3)\<close> on the current date: the day of the
  month is read and set in local time, a day beyond the end of the month carrying into
  the next one, so the local time moves by three days; the result is the UTC instant of
  that local time.
\<close>

definition setDate_plus3 :: "env \<Rightarrow> int \<Rightarrow> int" where
  "setDate_plus3 e now = UTC e (LocalTime e now + 3 * msPerDay)"

subsection \<open>The table of deletion requests\<close>

datatype deletion_status = pending | cancelled | completed

text \<open>
  A row of \<^verbatim>\<open>account_deletion_requests\<close>. The column \<open>user_id\<close> is read as text.
  Timestamps are milliseconds since the epoch.
\<close>

record row =
  row_id :: nat
  user_id :: string
  status :: deletion_status
  scheduled_deletion_at :: int
  cancelled_at :: "int option"

type_synonym table = "row list"

text \<open>
  The calls the handler makes on the storage client: the two filtered ones with the
  text of the filter, the insert with the text stored.
\<close>

datatype storage_call = SelectPending string | InsertRow string | UpdatePending string

text \<open>
  The filter \<^verbatim>\<open>.eq('user_id', user_id).eq('status', 'pending')\<close>. The client sends
  \<^verbatim>\<open>user_id=eq.${user_id}\<close>, the text of the value, which is the text line 422 has
  printed; \<open>k\<close> is this text.
\<close>

definition is_match :: "string \<Rightarrow> row \<Rightarrow> bool" where
  "is_match k r = (user_id r = k \<and> status r = pending)"

definition matching :: "string \<Rightarrow> table \<Rightarrow> row list" where
  "matching k tbl = filter (is_match k) tbl"

text \<open>
  \<^verbatim>\<open>.select('*') ... .maybeSingle()\<close>: no row gives \<^verbatim>\<open>null\<close>, one row gives the row,
  more than one row gives the client's error \<^verbatim>\<open>PGRST116\<close>.
\<close>

definition select_maybeSingle :: "string \<Rightarrow> table \<Rightarrow> storage_error + row option" where
  "select_maybeSingle k tbl =
     (case matching k tbl of
        [] \<Rightarrow> Inr None
      | [r] \<Rightarrow> Inr (Some r)
      | _ \<Rightarrow> Inl (PostgrestError ''PGRST116''))"

text \<open>
  \<^verbatim>\<open>.insert({user_id, scheduled_deletion_at, status: 'pending'}).select().single()\<close>:
  one row is added and handed back. Its identifier \<open>new_id\<close> is generated by the
  storage; \<open>c\<close> is the text the column holds for the \<open>user_id\<close> sent.
\<close>

definition insert_single :: "string \<Rightarrow> int \<Rightarrow> nat \<Rightarrow> table \<Rightarrow> (storage_error + row) \<times> table" where
  "insert_single c t new_id tbl =
     (let r = \<lparr>row_id = new_id, user_id = c, status = pending,
                scheduled_deletion_at = t, cancelled_at = None\<rparr>
      in (Inr r, tbl @ [r]))"

text \<open>
  \<^verbatim>\<open>.update({status: 'cancelled', cancelled_at}).eq(...).eq(...).select().single()\<close>:
  when exactly one row matches the filter it is updated and handed back; with no row
  or several rows the answer is the error \<^verbatim>\<open>PGRST116\<close> and the table stays as it was
  (the storage rolls the statement back).
\<close>

definition cancel_row :: "int \<Rightarrow> row \<Rightarrow> row" where
  "cancel_row t r = r\<lparr>status := cancelled, cancelled_at := Some t\<rparr>"

definition update_single :: "string \<Rightarrow> int \<Rightarrow> table \<Rightarrow> (storage_error + row) \<times> table" where
  "update_single k t tbl =
     (case matching k tbl of
        [r] \<Rightarrow> (Inr (cancel_row t r),
                map (\<lambda>x. if is_match k x then cancel_row t x else x) tbl)
      | _ \<Rightarrow> (Inl (PostgrestError ''PGRST116''), tbl))"

subsection \<open>Responses\<close>

datatype error_text = Literal string | MessageOf thrown

datatype resp_body =
    ErrorBody error_text
  | ConflictBody error_text row
  | SuccessBody string row
  | StatusBody bool "row option"

record response =
  http_status :: nat
  headers :: "(string \<times> string) list"
  body :: "resp_body option"

definition corsHeaders :: "(string \<times> string) list" where
  "corsHeaders =
     [(''Access-Control-Allow-Origin'', ''*''),
      (''Access-Control-Allow-Headers'', ''authorization, x-client-info, apikey, content-type'')]"

text \<open>
  \<^verbatim>\<open>new Response(JSON.stringify(b), {status, headers: {...corsHeaders, 'Content-Type':
  'application/json'}})\<close>; a response built without a status has status 200.
\<close>

definition json_response :: "nat \<Rightarrow> resp_body \<Rightarrow> response" where
  "json_response st b =
     \<lparr>http_status = st,
      headers = corsHeaders @ [(''Content-Type'', ''application/json'')],
      body = Some b\<rparr>"

text \<open>The \<^verbatim>\<open>catch\<close> of lines 542 to 549 makes a response of whatever was thrown.\<close>

fun catch :: "thrown + response \<Rightarrow> response" where
  "catch (Inr resp) = resp"
| "catch (Inl error) =
     (let errorMessage =
            (if instanceof_Error error then MessageOf error
             else Literal ''An unexpected error occurred'')
      in json_response 500 (ErrorBody errorMessage))"

subsection \<open>The three actions\<close>

text \<open>
  Where the handler stands after its first storage round trip: it has returned or
  thrown, or (\<open>Continue\<close>) it has found no pending request and goes on to the insert.
\<close>

datatype stage = Settled "thrown + response" | Continue jsval

text \<open>Lines 424 to 446: the lookup of \<open>request_deletion\<close>.\<close>

definition request_deletion_check :: "jsval \<Rightarrow> string \<Rightarrow> table \<Rightarrow> stage" where
  "request_deletion_check uid k tbl =
     (case select_maybeSingle k tbl of
        Inl checkError \<Rightarrow> Settled (Inl (Storage checkError))
      | Inr (Some existingRequest) \<Rightarrow>
          Settled (Inr (json_response 400
                  (ConflictBody (Literal ''A deletion request is already pending'')
                     existingRequest)))
      | Inr None \<Rightarrow> Continue uid)"

text \<open>Lines 448 to 476: the insert of \<open>request_deletion\<close>, on the table as it is by then.\<close>

definition request_deletion_create ::
    "env \<Rightarrow> jsval \<Rightarrow> int \<Rightarrow> nat \<Rightarrow> table \<Rightarrow> (thrown + response) \<times> table" where
  "request_deletion_create e uid now new_id tbl =
     (let scheduledDeletionAt = setDate_plus3 e now in
      case insert_single (user_id_column e uid) scheduledDeletionAt new_id tbl of
        (Inl insertError, tbl') \<Rightarrow> (Inl (Storage insertError), tbl')
      | (Inr newRequest, tbl') \<Rightarrow>
          (Inr (json_response 200 (SuccessBody ''Account deletion scheduled'' newRequest)),
           tbl'))"

text \<open>Lines 478 to 511.\<close>

definition cancel_deletion :: "string \<Rightarrow> int \<Rightarrow> table \<Rightarrow> (thrown + response) \<times> table" where
  "cancel_deletion k now tbl =
     (case update_single k now tbl of
        (Inl cancelError, tbl') \<Rightarrow>
          (if code cancelError = ''PGRST116''
           then (Inr (json_response 404
                        (ErrorBody (Literal ''No pending deletion request found''))), tbl')
           else (Inl (Storage cancelError), tbl'))
      | (Inr cancelledRequest, tbl') \<Rightarrow>
          (Inr (json_response 200 (SuccessBody ''Account deletion cancelled'' cancelledRequest)),
           tbl'))"

text \<open>Lines 513 to 533.\<close>

definition get_status :: "string \<Rightarrow> table \<Rightarrow> thrown + response" where
  "get_status k tbl =
     (case select_maybeSingle k tbl of
        Inl statusError \<Rightarrow> Inl (Storage statusError)
      | Inr request \<Rightarrow>
          Inr (json_response 200 (StatusBody (request \<noteq> None) request)))"

subsection \<open>The handler\<close>

text \<open>
  The \<^verbatim>\<open>try\<close> block from line 409 up to and including the first storage round trip.
  Line 422 prints \<open>action\<close> and \<open>user_id\<close> in a template literal, in this order; a value
  that has no text throws there.
\<close>

definition try_block :: "request \<Rightarrow> int \<Rightarrow> table \<Rightarrow> stage \<times> table \<times> storage_call list" where
  "try_block req now tbl =
     (case read_fields (json_body req) of
        Inl e \<Rightarrow> (Settled (Inl e), tbl, [])
      | Inr (action, uid) \<Rightarrow>
          if \<not> truthy uid
          then (Settled (Inr (json_response 400 (ErrorBody (Literal ''user_id is required'')))),
                tbl, [])
          else
            (case to_text action of
               None \<Rightarrow> (Settled (Inl TypeError), tbl, [])
             | Some _ \<Rightarrow>
                (case to_text uid of
                   None \<Rightarrow> (Settled (Inl TypeError), tbl, [])
                 | Some k \<Rightarrow>
                     if action = JStr ''request_deletion''
                     then (request_deletion_check uid k tbl, tbl, [SelectPending k])
                     else if action = JStr ''cancel_deletion''
                     then (case cancel_deletion k now tbl of
                             (out, tbl') \<Rightarrow> (Settled out, tbl', [UpdatePending k]))
                     else if action = JStr ''get_status''
                     then (Settled (get_status k tbl), tbl, [SelectPending k])
                     else (Settled (Inr (json_response 400
                             (ErrorBody (Literal
                                ''Invalid action. Use: request_deletion, cancel_deletion, or get_status'')))),
                           tbl, []))))"

record outcome =
  reply :: response
  table_after :: table
  calls :: "storage_call list"

text \<open>
  The whole handler, run with no other invocation in between: the preflight answer of
  lines 404 to 406, the \<^verbatim>\<open>try\<close> block, and the \<^verbatim>\<open>catch\<close>. \<open>now\<close> is the clock
  (\<^verbatim>\<open>new Date()\<close>, read once on every path) and \<open>new_id\<close> the identifier the storage
  gives to an inserted row.
\<close>

definition serve :: "env \<Rightarrow> request \<Rightarrow> int \<Rightarrow> nat \<Rightarrow> table \<Rightarrow> outcome" where
  "serve e req now new_id tbl =
     (if http_method req = ''OPTIONS''
      then \<lparr>reply = \<lparr>http_status = 200, headers = corsHeaders, body = None\<rparr>,
            table_after = tbl, calls = []\<rparr>
      else
        (case try_block req now tbl of
           (Settled out, tbl', cs) \<Rightarrow> \<lparr>reply = catch out, table_after = tbl', calls = cs\<rparr>
         | (Continue uid, tbl', cs) \<Rightarrow>
             (case request_deletion_create e uid now new_id tbl' of
                (out, tbl'') \<Rightarrow>
                  \<lparr>reply = catch out, table_after = tbl'',
                   calls = cs @ [InsertRow (user_id_column e uid)]\<rparr>)))"

subsection \<open>Invocations that overlap\<close>




subsection \<open>The invariant, and the values used in examples\<close>


text \<open>A request that is not a preflight and whose body carries the two fields.\<close>

definition post :: "jsval \<Rightarrow> jsval \<Rightarrow> request" where
  "post action uid =
     \<lparr>http_method = ''POST'',
      json_body = Json (JObj [(''action'', action), (''user_id'', uid)])\<rparr>"

text \<open>
  An example of surroundings: a runtime in UTC over a text column. The column keeps a
  string, a number and a boolean as the text they are looked up by, and the empty object
  as its JSON text \<^verbatim>\<open>{}\<close>. The other values are not used in the examples and
  stand with the empty text.
\<close>

definition utc_env :: env where
  "utc_env =
     \<lparr>LocalTZA = (\<lambda>t isUTC. 0),
      user_id_column = (\<lambda>v. case v of
          JStr s \<Rightarrow> s
        | JNum n \<Rightarrow> n
        | JBool b \<Rightarrow> (if b then ''true'' else ''false'')
        | JObj [] \<Rightarrow> ''{}''
        | _ \<Rightarrow> [])\<rparr>"


section \<open>Facts about the table operations\<close>

lemma read_fields_post [simp]: "read_fields (json_body (post a u)) = Inr (a, u)"
  by (simp add: post_def get_prop_def)

lemma http_method_post [simp]: "http_method (post a u) \<noteq> ''OPTIONS''"
  by (simp add: post_def)







text \<open>The storage calls, by the number of rows that match.\<close>

lemma request_deletion_check_none:
  "matching k tbl = [] \<Longrightarrow> request_deletion_check u k tbl = Continue u"
  by (simp add: request_deletion_check_def select_maybeSingle_def)

lemma request_deletion_check_one:
  "matching k tbl = [r] \<Longrightarrow> request_deletion_check u k tbl =
     Settled (Inr (json_response 400
        (ConflictBody (Literal ''A deletion request is already pending'') r)))"
  by (simp add: request_deletion_check_def select_maybeSingle_def)

lemma request_deletion_check_many:
  "matching k tbl = r # r' # rs \<Longrightarrow> request_deletion_check u k tbl =
     Settled (Inl (Storage (PostgrestError ''PGRST116'')))"
  by (simp add: request_deletion_check_def select_maybeSingle_def)

lemma request_deletion_create_eq:
  "request_deletion_create e u now i tbl =
     (Inr (json_response 200 (SuccessBody ''Account deletion scheduled''
             \<lparr>row_id = i, user_id = user_id_column e u, status = pending,
              scheduled_deletion_at = setDate_plus3 e now, cancelled_at = None\<rparr>)),
      tbl @ [\<lparr>row_id = i, user_id = user_id_column e u, status = pending,
              scheduled_deletion_at = setDate_plus3 e now, cancelled_at = None\<rparr>])"
  by (simp add: request_deletion_create_def insert_single_def Let_def)

lemma cancel_deletion_one:
  "matching k tbl = [r] \<Longrightarrow> cancel_deletion k now tbl =
     (Inr (json_response 200 (SuccessBody ''Account deletion cancelled'' (cancel_row now r))),
      map (\<lambda>x. if is_match k x then cancel_row now x else x) tbl)"
  by (simp add: cancel_deletion_def update_single_def)

lemma cancel_deletion_other:
  assumes "length (matching k tbl) \<noteq> 1"
  shows "cancel_deletion k now tbl =
     (Inr (json_response 404 (ErrorBody (Literal ''No pending deletion request found''))), tbl)"
proof (cases "matching k tbl")
  case Nil
  then show ?thesis by (simp add: cancel_deletion_def update_single_def)
next
  case (Cons r rs)
  with assms obtain r' rs' where "rs = r' # rs'" by (cases rs) auto
  with Cons show ?thesis by (simp add: cancel_deletion_def update_single_def)
qed

lemma get_status_none:
  "matching k tbl = [] \<Longrightarrow> get_status k tbl = Inr (json_response 200 (StatusBody False None))"
  by (simp add: get_status_def select_maybeSingle_def)

lemma get_status_one:
  "matching k tbl = [r] \<Longrightarrow>
   get_status k tbl = Inr (json_response 200 (StatusBody True (Some r)))"
  by (simp add: get_status_def select_maybeSingle_def)

lemma get_status_many:
  "matching k tbl = r # r' # rs \<Longrightarrow>
   get_status k tbl = Inl (Storage (PostgrestError ''PGRST116''))"
  by (simp add: get_status_def select_maybeSingle_def)

text \<open>The \<^verbatim>\<open>try\<close> block, by the path taken.\<close>

lemma try_block_no_fields:
  "read_fields (json_body req) = Inl x \<Longrightarrow> try_block req now tbl = (Settled (Inl x), tbl, [])"
  by (simp add: try_block_def)

lemma try_block_falsy:
  "read_fields (json_body req) = Inr (a, u) \<Longrightarrow> \<not> truthy u \<Longrightarrow>
   try_block req now tbl =
     (Settled (Inr (json_response 400 (ErrorBody (Literal ''user_id is required'')))), tbl, [])"
  by (simp add: try_block_def)

lemma try_block_no_text:
  "read_fields (json_body req) = Inr (a, u) \<Longrightarrow> truthy u \<Longrightarrow>
   to_text a = None \<or> to_text u = None \<Longrightarrow>
   try_block req now tbl = (Settled (Inl TypeError), tbl, [])"
proof (cases "to_text a")
  case None
  assume "read_fields (json_body req) = Inr (a, u)" "truthy u"
  with None show ?thesis by (simp add: try_block_def)
next
  case (Some ta)
  assume "read_fields (json_body req) = Inr (a, u)" "truthy u"
    "to_text a = None \<or> to_text u = None"
  with Some show ?thesis by (simp add: try_block_def)
qed

lemma try_block_request:
  "read_fields (json_body req) = Inr (JStr ''request_deletion'', u) \<Longrightarrow> truthy u \<Longrightarrow>
   to_text u = Some k \<Longrightarrow>
   try_block req now tbl = (request_deletion_check u k tbl, tbl, [SelectPending k])"
  by (simp add: try_block_def)

lemma try_block_cancel:
  "read_fields (json_body req) = Inr (JStr ''cancel_deletion'', u) \<Longrightarrow> truthy u \<Longrightarrow>
   to_text u = Some k \<Longrightarrow>
   try_block req now tbl =
     (Settled (fst (cancel_deletion k now tbl)), snd (cancel_deletion k now tbl),
      [UpdatePending k])"
  by (simp add: try_block_def split: prod.splits)

lemma try_block_status:
  "read_fields (json_body req) = Inr (JStr ''get_status'', u) \<Longrightarrow> truthy u \<Longrightarrow>
   to_text u = Some k \<Longrightarrow>
   try_block req now tbl = (Settled (get_status k tbl), tbl, [SelectPending k])"
  by (simp add: try_block_def)

lemma try_block_invalid:
  "read_fields (json_body req) = Inr (a, u) \<Longrightarrow> truthy u \<Longrightarrow>
   to_text a = Some ta \<Longrightarrow> to_text u = Some k \<Longrightarrow>
   a \<noteq> JStr ''request_deletion'' \<Longrightarrow> a \<noteq> JStr ''cancel_deletion'' \<Longrightarrow>
   a \<noteq> JStr ''get_status'' \<Longrightarrow>
   try_block req now tbl =
     (Settled (Inr (json_response 400 (ErrorBody (Literal
        ''Invalid action. Use: request_deletion, cancel_deletion, or get_status'')))), tbl, [])"
  by (simp add: try_block_def)

text \<open>The handler, by the path taken.\<close>

lemma serve_settled:
  "http_method req \<noteq> ''OPTIONS'' \<Longrightarrow> try_block req now tbl = (Settled out, tbl', cs) \<Longrightarrow>
   serve e req now i tbl = \<lparr>reply = catch out, table_after = tbl', calls = cs\<rparr>"
  by (simp add: serve_def)

lemma serve_continue:
  "http_method req \<noteq> ''OPTIONS'' \<Longrightarrow> try_block req now tbl = (Continue u, tbl', cs) \<Longrightarrow>
   serve e req now i tbl =
     \<lparr>reply = json_response 200 (SuccessBody ''Account deletion scheduled''
                \<lparr>row_id = i, user_id = user_id_column e u, status = pending,
                 scheduled_deletion_at = setDate_plus3 e now, cancelled_at = None\<rparr>),
      table_after = tbl' @ [\<lparr>row_id = i, user_id = user_id_column e u, status = pending,
                 scheduled_deletion_at = setDate_plus3 e now, cancelled_at = None\<rparr>],
      calls = cs @ [InsertRow (user_id_column e u)]\<rparr>"
  by (simp add: serve_def request_deletion_create_eq)

lemma serve_preflight:
  "http_method req = ''OPTIONS'' \<Longrightarrow>
   serve e req now i tbl =
     \<lparr>reply = \<lparr>http_status = 200, headers = corsHeaders, body = None\<rparr>,
      table_after = tbl, calls = []\<rparr>"
  by (simp add: serve_def)

lemma serve_request_none:
  assumes "http_method req \<noteq> ''OPTIONS''"
    and "read_fields (json_body req) = Inr (JStr ''request_deletion'', u)"
    and "truthy u" and "to_text u = Some k" and "matching k tbl = []"
  shows "serve e req now i tbl =
     \<lparr>reply = json_response 200 (SuccessBody ''Account deletion scheduled''
                \<lparr>row_id = i, user_id = user_id_column e u, status = pending,
                 scheduled_deletion_at = setDate_plus3 e now, cancelled_at = None\<rparr>),
      table_after = tbl @ [\<lparr>row_id = i, user_id = user_id_column e u, status = pending,
                 scheduled_deletion_at = setDate_plus3 e now, cancelled_at = None\<rparr>],
      calls = [SelectPending k, InsertRow (user_id_column e u)]\<rparr>"
proof -
  have "try_block req now tbl = (Continue u, tbl, [SelectPending k])"
    using assms by (simp add: try_block_request request_deletion_check_none)
  from serve_continue [OF assms(1) this] show ?thesis by simp
qed

lemma serve_request_one:
  assumes "http_method req \<noteq> ''OPTIONS''"
    and "read_fields (json_body req) = Inr (JStr ''request_deletion'', u)"
    and "truthy u" and "to_text u = Some k" and "matching k tbl = [r]"
  shows "serve e req now i tbl =
     \<lparr>reply = json_response 400
                (ConflictBody (Literal ''A deletion request is already pending'') r),
      table_after = tbl, calls = [SelectPending k]\<rparr>"
proof -
  have "try_block req now tbl =
      (Settled (Inr (json_response 400
         (ConflictBody (Literal ''A deletion request is already pending'') r))),
       tbl, [SelectPending k])"
    using assms by (simp add: try_block_request request_deletion_check_one)
  from serve_settled [OF assms(1) this] show ?thesis by simp
qed

lemma serve_request_many:
  assumes "http_method req \<noteq> ''OPTIONS''"
    and "read_fields (json_body req) = Inr (JStr ''request_deletion'', u)"
    and "truthy u" and "to_text u = Some k" and "matching k tbl = r # r' # rs"
  shows "serve e req now i tbl =
     \<lparr>reply = json_response 500 (ErrorBody (Literal ''An unexpected error occurred'')),
      table_after = tbl, calls = [SelectPending k]\<rparr>"
proof -
  have "try_block req now tbl =
      (Settled (Inl (Storage (PostgrestError ''PGRST116''))), tbl, [SelectPending k])"
    using assms by (simp add: try_block_request request_deletion_check_many)
  from serve_settled [OF assms(1) this] show ?thesis by simp
qed

lemma serve_cancel_one:
  assumes "http_method req \<noteq> ''OPTIONS''"
    and "read_fields (json_body req) = Inr (JStr ''cancel_deletion'', u)"
    and "truthy u" and "to_text u = Some k" and "matching k tbl = [r]"
  shows "serve e req now i tbl =
     \<lparr>reply = json_response 200 (SuccessBody ''Account deletion cancelled'' (cancel_row now r)),
      table_after = map (\<lambda>x. if is_match k x then cancel_row now x else x) tbl,
      calls = [UpdatePending k]\<rparr>"
proof -
  have "try_block req now tbl =
      (Settled (Inr (json_response 200
          (SuccessBody ''Account deletion cancelled'' (cancel_row now r)))),
       map (\<lambda>x. if is_match k x then cancel_row now x else x) tbl, [UpdatePending k])"
    using assms by (simp add: try_block_cancel cancel_deletion_one)
  from serve_settled [OF assms(1) this] show ?thesis by simp
qed

lemma serve_cancel_other:
  assumes "http_method req \<noteq> ''OPTIONS''"
    and "read_fields (json_body req) = Inr (JStr ''cancel_deletion'', u)"
    and "truthy u" and "to_text u = Some k" and "length (matching k tbl) \<noteq> 1"
  shows "serve e req now i tbl =
     \<lparr>reply = json_response 404 (ErrorBody (Literal ''No pending deletion request found'')),
      table_after = tbl, calls = [UpdatePending k]\<rparr>"
proof -
  have "try_block req now tbl =
      (Settled (Inr (json_response 404
          (ErrorBody (Literal ''No pending deletion request found'')))),
       tbl, [UpdatePending k])"
    using assms by (simp add: try_block_cancel cancel_deletion_other)
  from serve_settled [OF assms(1) this] show ?thesis by simp
qed

lemma serve_status_none:
  assumes "http_method req \<noteq> ''OPTIONS''"
    and "read_fields (json_body req) = Inr (JStr ''get_status'', u)"
    and "truthy u" and "to_text u = Some k" and "matching k tbl = []"
  shows "serve e req now i tbl =
     \<lparr>reply = json_response 200 (StatusBody False None),
      table_after = tbl, calls = [SelectPending k]\<rparr>"
proof -
  have "try_block req now tbl =
      (Settled (Inr (json_response 200 (StatusBody False None))), tbl, [SelectPending k])"
    using assms by (simp add: try_block_status get_status_none)
  from serve_settled [OF assms(1) this] show ?thesis by simp
qed

lemma serve_status_one:
  assumes "http_method req \<noteq> ''OPTIONS''"
    and "read_fields (json_body req) = Inr (JStr ''get_status'', u)"
    and "truthy u" and "to_text u = Some k" and "matching k tbl = [r]"
  shows "serve e req now i tbl =
     \<lparr>reply = json_response 200 (StatusBody True (Some r)),
      table_after = tbl, calls = [SelectPending k]\<rparr>"
proof -
  have "try_block req now tbl =
      (Settled (Inr (json_response 200 (StatusBody True (Some r)))), tbl, [SelectPending k])"
    using assms by (simp add: try_block_status get_status_one)
  from serve_settled [OF assms(1) this] show ?thesis by simp
qed

lemma serve_status_many:
  assumes "http_method req \<noteq> ''OPTIONS''"
    and "read_fields (json_body req) = Inr (JStr ''get_status'', u)"
    and "truthy u" and "to_text u = Some k" and "matching k tbl = r # r' # rs"
  shows "serve e req now i tbl =
     \<lparr>reply = json_response 500 (ErrorBody (Literal ''An unexpected error occurred'')),
      table_after = tbl, calls = [SelectPending k]\<rparr>"
proof -
  have "try_block req now tbl =
      (Settled (Inl (Storage (PostgrestError ''PGRST116''))), tbl, [SelectPending k])"
    using assms by (simp add: try_block_status get_status_many)
  from serve_settled [OF assms(1) this] show ?thesis by simp
qed

lemma serve_falsy:
  assumes "http_method req \<noteq> ''OPTIONS''" "read_fields (json_body req) = Inr (a, u)"
    "\<not> truthy u"
  shows "serve e req now i tbl =
           \<lparr>reply = json_response 400 (ErrorBody (Literal ''user_id is required'')),
            table_after = tbl, calls = []\<rparr>"
  using serve_settled [OF assms(1) try_block_falsy [OF assms(2,3)]] by simp

lemma serve_invalid_action:
  assumes "http_method req \<noteq> ''OPTIONS''" "read_fields (json_body req) = Inr (a, u)"
    "truthy u" "to_text a = Some ta" "to_text u = Some k"
    "a \<noteq> JStr ''request_deletion''" "a \<noteq> JStr ''cancel_deletion''" "a \<noteq> JStr ''get_status''"
  shows "serve e req now i tbl =
           \<lparr>reply = json_response 400 (ErrorBody (Literal
               ''Invalid action. Use: request_deletion, cancel_deletion, or get_status'')),
            table_after = tbl, calls = []\<rparr>"
  using serve_settled [OF assms(1) try_block_invalid [OF assms(2-8)]] by simp

lemma serve_no_text:
  assumes "http_method req \<noteq> ''OPTIONS''" "read_fields (json_body req) = Inr (a, u)"
    "truthy u" "to_text a = None \<or> to_text u = None"
  shows "serve e req now i tbl =
           \<lparr>reply = json_response 500 (ErrorBody (MessageOf TypeError)),
            table_after = tbl, calls = []\<rparr>"
  using serve_settled [OF assms(1) try_block_no_text [OF assms(2-4)]] by simp

lemma serve_no_fields:
  assumes "http_method req \<noteq> ''OPTIONS''" "read_fields (json_body req) = Inl x"
  shows "serve e req now i tbl =
           \<lparr>reply = catch (Inl x), table_after = tbl, calls = []\<rparr>"
  using serve_settled [OF assms(1) try_block_no_fields [OF assms(2)]] by simp

text \<open>Every request takes one of eight paths through the handler.\<close>

lemma request_paths:
  obtains (preflight) "http_method req = ''OPTIONS''"
  | (no_fields) x where "http_method req \<noteq> ''OPTIONS''" "read_fields (json_body req) = Inl x"
  | (falsy) a u where "http_method req \<noteq> ''OPTIONS''"
      "read_fields (json_body req) = Inr (a, u)" "\<not> truthy u"
  | (no_text) a u where "http_method req \<noteq> ''OPTIONS''"
      "read_fields (json_body req) = Inr (a, u)" "truthy u"
      "to_text a = None \<or> to_text u = None"
  | (request) u k where "http_method req \<noteq> ''OPTIONS''"
      "read_fields (json_body req) = Inr (JStr ''request_deletion'', u)" "truthy u"
      "to_text u = Some k"
  | (cancel) u k where "http_method req \<noteq> ''OPTIONS''"
      "read_fields (json_body req) = Inr (JStr ''cancel_deletion'', u)" "truthy u"
      "to_text u = Some k"
  | (status) u k where "http_method req \<noteq> ''OPTIONS''"
      "read_fields (json_body req) = Inr (JStr ''get_status'', u)" "truthy u"
      "to_text u = Some k"
  | (invalid) a u ta k where "http_method req \<noteq> ''OPTIONS''"
      "read_fields (json_body req) = Inr (a, u)" "truthy u"
      "to_text a = Some ta" "to_text u = Some k"
      "a \<noteq> JStr ''request_deletion''" "a \<noteq> JStr ''cancel_deletion''"
      "a \<noteq> JStr ''get_status''"
proof (cases "http_method req = ''OPTIONS''")
  case True
  then show ?thesis by (rule preflight)
next
  case m: False
  show ?thesis
  proof (cases "read_fields (json_body req)")
    case (Inl x)
    with m show ?thesis by (rule no_fields)
  next
    case (Inr p)
    obtain a u where "p = (a, u)" by (cases p)
    with Inr have f: "read_fields (json_body req) = Inr (a, u)" by simp
    show ?thesis
    proof (cases "truthy u")
      case False
      with m f show ?thesis by (rule falsy)
    next
      case t: True
      show ?thesis
      proof (cases "to_text a = None \<or> to_text u = None")
        case True
        with m f t show ?thesis by (rule no_text)
      next
        case False
        then obtain ta k where ta: "to_text a = Some ta" and k: "to_text u = Some k" by auto
        consider "a = JStr ''request_deletion''" | "a = JStr ''cancel_deletion''"
          | "a = JStr ''get_status''"
          | "a \<noteq> JStr ''request_deletion''" "a \<noteq> JStr ''cancel_deletion''"
            "a \<noteq> JStr ''get_status''"
          by blast
        then show ?thesis
        proof cases
          case 1
          with m f t k show ?thesis by (auto intro: request)
        next
          case 2
          with m f t k show ?thesis by (auto intro: cancel)
        next
          case 3
          with m f t k show ?thesis by (auto intro: status)
        next
          case 4
          with m f t ta k show ?thesis by (auto intro: invalid)
        qed
      qed
    qed
  qed
qed

lemma rows_cases:
  obtains (none) "xs = []" | (one) r where "xs = [r]" | (many) r r' rs where "xs = r # r' # rs"
proof (cases xs)
  case Nil
  then show ?thesis by (rule none)
next
  case (Cons r ys)
  then show ?thesis by (cases ys) (auto intro: one many)
qed


text \<open>Every response is the preflight answer or is built by \<open>json_response\<close>.\<close>

lemma serve_reply_shape:
  "http_method req = ''OPTIONS'' \<and>
     reply (serve e req now i tbl) = \<lparr>http_status = 200, headers = corsHeaders, body = None\<rparr>
   \<or> http_method req \<noteq> ''OPTIONS'' \<and> (\<exists>st b. reply (serve e req now i tbl) = json_response st b)"
proof (cases req rule: request_paths)
  case preflight
  then show ?thesis by (simp add: serve_preflight)
next
  case (no_fields x)
  then show ?thesis by (cases "instanceof_Error x") (auto simp add: serve_no_fields)
next
  case (falsy a u)
  then show ?thesis by (auto simp add: serve_falsy)
next
  case (no_text a u)
  then show ?thesis by (auto simp add: serve_no_text)
next
  case (request u k)
  show ?thesis
  proof (cases "matching k tbl" rule: rows_cases)
    case none
    from serve_request_none [OF request none, of e now i] request(1) show ?thesis by auto
  next
    case (one r)
    from serve_request_one [OF request one, of e now i] request(1) show ?thesis by auto
  next
    case (many r r' rs)
    from serve_request_many [OF request many, of e now i] request(1) show ?thesis by auto
  qed
next
  case (cancel u k)
  show ?thesis
  proof (cases "matching k tbl" rule: rows_cases)
    case none
    then have "length (matching k tbl) \<noteq> 1" by simp
    from serve_cancel_other [OF cancel this, of e now i] cancel(1) show ?thesis by auto
  next
    case (one r)
    from serve_cancel_one [OF cancel one, of e now i] cancel(1) show ?thesis by auto
  next
    case (many r r' rs)
    then have "length (matching k tbl) \<noteq> 1" by simp
    from serve_cancel_other [OF cancel this, of e now i] cancel(1) show ?thesis by auto
  qed
next
  case (status u k)
  show ?thesis
  proof (cases "matching k tbl" rule: rows_cases)
    case none
    from serve_status_none [OF status none, of e now i] status(1) show ?thesis by auto
  next
    case (one r)
    from serve_status_one [OF status one, of e now i] status(1) show ?thesis by auto
  next
    case (many r r' rs)
    from serve_status_many [OF status many, of e now i] status(1) show ?thesis by auto
  qed
next
  case (invalid a u ta k)
  from serve_invalid_action [OF invalid, of e now i tbl] invalid(1) show ?thesis by auto
qed



section \<open>Properties of the handler\<close>



















text \<open>
  C7. A request that is not a preflight, whose body gives the two fields and whose
  \<open>user_id\<close> is missing (or any other falsy value), is answered 400, whatever the
  action; the table is the same afterwards and no storage call is made.
\<close>

theorem missing_user_id_rejected:
  assumes "http_method req \<noteq> ''OPTIONS''"
    and "read_fields (json_body req) = Inr (action, uid)"
    and "\<not> truthy uid"
  shows "serve e req now i tbl =
           \<lparr>reply = json_response 400 (ErrorBody (Literal ''user_id is required'')),
            table_after = tbl, calls = []\<rparr>"
  using assms by (rule serve_falsy)

theorem missing_user_id_rejected_witness:
  "read_fields (Json (JObj [(''action'', JStr ''cancel_deletion'')]))
     = Inr (JStr ''cancel_deletion'', JUndefined)
   \<and> serve utc_env
        \<lparr>http_method = ''POST'', json_body = Json (JObj [(''action'', JStr ''cancel_deletion'')])\<rparr>
        7 2
        [\<lparr>row_id = 1, user_id = ''u1'', status = pending,
          scheduled_deletion_at = 5, cancelled_at = None\<rparr>]
     = \<lparr>reply = json_response 400 (ErrorBody (Literal ''user_id is required'')),
        table_after = [\<lparr>row_id = 1, user_id = ''u1'', status = pending,
                        scheduled_deletion_at = 5, cancelled_at = None\<rparr>],
        calls = []\<rparr>"
proof -
  have f: "read_fields (Json (JObj [(''action'', JStr ''cancel_deletion'')]))
     = Inr (JStr ''cancel_deletion'', JUndefined)"
    by (simp add: get_prop_def)
  show ?thesis
    using f missing_user_id_rejected
      [of "\<lparr>http_method = ''POST'',
            json_body = Json (JObj [(''action'', JStr ''cancel_deletion'')])\<rparr>"
          "JStr ''cancel_deletion''" JUndefined utc_env 7 2
          "[\<lparr>row_id = 1, user_id = ''u1'', status = pending,
             scheduled_deletion_at = 5, cancelled_at = None\<rparr>]"]
    by simp
qed

text \<open>
  C8, as the specification states it, fails: a body that is not JSON is answered 500,
  not 400; and so is a body with an unknown action whose \<open>user_id\<close> line 422 cannot
  print, \<^verbatim>\<open>{"action": "purge", "user_id": {"toString": 0}}\<close>.
\<close>

theorem malformed_body_counterexample:
  "http_status (reply (serve utc_env \<lparr>http_method = ''POST'', json_body = NotJson\<rparr> 0 0 [])) = 500
   \<and> http_status (reply (serve utc_env \<lparr>http_method = ''POST'', json_body = NotJson\<rparr> 0 0 []))
       \<noteq> 400
   \<and> http_status (reply (serve utc_env
        (post (JStr ''purge'') (JObj [(''toString'', JNum ''0'')])) 0 0 [])) = 500"
proof -
  have a: "http_status (reply (serve utc_env \<lparr>http_method = ''POST'', json_body = NotJson\<rparr>
             0 0 [])) = 500"
    using serve_no_fields [of "\<lparr>http_method = ''POST'', json_body = NotJson\<rparr>" SyntaxError
        utc_env 0 0 "[]"]
    by (simp add: json_response_def)
  have b: "http_status (reply (serve utc_env
        (post (JStr ''purge'') (JObj [(''toString'', JNum ''0'')])) 0 0 [])) = 500"
    using serve_no_text [of "post (JStr ''purge'') (JObj [(''toString'', JNum ''0'')])"
        "JStr ''purge''" "JObj [(''toString'', JNum ''0'')]" utc_env 0 0 "[]"]
    by (simp add: json_response_def)
  from a b show ?thesis by simp
qed

text \<open>
  C8, amended. A request that is not a preflight and whose body parses to a JSON value
  other than \<open>null\<close> is answered 400, without a storage call, when its \<open>user_id\<close> is
  missing or falsy, and when its action is none of the three and line 422 can print
  both its action and its \<open>user_id\<close>. It is answered 500, without a storage call, when
  its \<open>user_id\<close> is truthy and line 422 cannot print one of the two. A body that is not
  JSON, or that is \<open>null\<close>, is answered 500.
\<close>

theorem invalid_argument_status:
  assumes "http_method req \<noteq> ''OPTIONS''"
  shows "(\<forall>action uid. read_fields (json_body req) = Inr (action, uid)
            \<and> (\<not> truthy uid
                \<or> to_text action \<noteq> None \<and> to_text uid \<noteq> None
                   \<and> action \<noteq> JStr ''request_deletion'' \<and> action \<noteq> JStr ''cancel_deletion''
                   \<and> action \<noteq> JStr ''get_status'')
            \<longrightarrow> http_status (reply (serve e req now i tbl)) = 400
                \<and> table_after (serve e req now i tbl) = tbl
                \<and> calls (serve e req now i tbl) = [])
       \<and> (\<forall>action uid. read_fields (json_body req) = Inr (action, uid)
            \<and> truthy uid \<and> (to_text action = None \<or> to_text uid = None)
            \<longrightarrow> http_status (reply (serve e req now i tbl)) = 500
                \<and> table_after (serve e req now i tbl) = tbl
                \<and> calls (serve e req now i tbl) = [])
       \<and> (json_body req = NotJson \<or> json_body req = Json JNull
            \<longrightarrow> http_status (reply (serve e req now i tbl)) = 500)"
proof -
  have bad: "http_status (reply (serve e req now i tbl)) = 400
                \<and> table_after (serve e req now i tbl) = tbl
                \<and> calls (serve e req now i tbl) = []"
    if f: "read_fields (json_body req) = Inr (action, uid)"
      and h: "\<not> truthy uid
                \<or> to_text action \<noteq> None \<and> to_text uid \<noteq> None
                   \<and> action \<noteq> JStr ''request_deletion'' \<and> action \<noteq> JStr ''cancel_deletion''
                   \<and> action \<noteq> JStr ''get_status''"
    for action uid
  proof (cases "truthy uid")
    case False
    from serve_falsy [OF assms f False, of e now i tbl]
    show ?thesis by (simp add: json_response_def)
  next
    case True
    with h obtain ta k where "to_text action = Some ta" "to_text uid = Some k"
      "action \<noteq> JStr ''request_deletion''" "action \<noteq> JStr ''cancel_deletion''"
      "action \<noteq> JStr ''get_status''"
      by auto
    from serve_invalid_action [OF assms f True this, of e now i tbl]
    show ?thesis by (simp add: json_response_def)
  qed
  have unprintable: "http_status (reply (serve e req now i tbl)) = 500
                \<and> table_after (serve e req now i tbl) = tbl
                \<and> calls (serve e req now i tbl) = []"
    if f: "read_fields (json_body req) = Inr (action, uid)"
      and t: "truthy uid" and n: "to_text action = None \<or> to_text uid = None"
    for action uid
    using serve_no_text [OF assms f t n, of e now i tbl] by (simp add: json_response_def)
  have unreadable: "http_status (reply (serve e req now i tbl)) = 500"
    if "json_body req = NotJson \<or> json_body req = Json JNull"
  proof -
    from that obtain x where x: "read_fields (json_body req) = Inl x" by auto
    from serve_no_fields [OF assms x, of e now i tbl]
    show ?thesis by (cases "instanceof_Error x") (simp_all add: json_response_def)
  qed
  from bad unprintable unreadable show ?thesis by blast
qed

theorem invalid_argument_status_witness:
  "http_status (reply (serve utc_env (post (JStr ''purge'') (JStr ''u1'')) 7 2 [])) = 400
   \<and> http_status (reply (serve utc_env (post (JStr ''get_status'') (JStr '''')) 7 2 [])) = 400
   \<and> http_status (reply (serve utc_env
        (post (JObj [(''toString'', JNull)]) (JStr ''u1'')) 7 2 [])) = 500
   \<and> http_status (reply (serve utc_env \<lparr>http_method = ''POST'', json_body = Json JNull\<rparr> 7 2 []))
       = 500"
proof -
  have a: "http_status (reply (serve utc_env (post (JStr ''purge'') (JStr ''u1'')) 7 2 [])) = 400"
    using invalid_argument_status [of "post (JStr ''purge'') (JStr ''u1'')" utc_env 7 2 "[]"]
    by simp
  have b: "http_status (reply (serve utc_env (post (JStr ''get_status'') (JStr '''')) 7 2 []))
       = 400"
    using invalid_argument_status [of "post (JStr ''get_status'') (JStr '''')" utc_env 7 2 "[]"]
    by simp
  have c: "http_status (reply (serve utc_env
        (post (JObj [(''toString'', JNull)]) (JStr ''u1'')) 7 2 [])) = 500"
    using invalid_argument_status
      [of "post (JObj [(''toString'', JNull)]) (JStr ''u1'')" utc_env 7 2 "[]"]
    by simp
  have d: "http_status (reply (serve utc_env \<lparr>http_method = ''POST'', json_body = Json JNull\<rparr>
             7 2 [])) = 500"
    using invalid_argument_status
      [of "\<lparr>http_method = ''POST'', json_body = Json JNull\<rparr>" utc_env 7 2 "[]"]
    by simp
  from a b c d show ?thesis by blast
qed

text \<open>
  C9. Every response of the handler carries the two CORS headers of \<open>corsHeaders\<close>,
  with \<open>Access-Control-Allow-Origin: *\<close>; they are its only headers apart from
  \<open>Content-Type\<close>. The answer to a preflight has no body.
\<close>

theorem cors_headers_on_every_response:
  "map_of (headers (reply (serve e req now i tbl))) ''Access-Control-Allow-Origin'' = Some ''*''
   \<and> map_of (headers (reply (serve e req now i tbl))) ''Access-Control-Allow-Headers''
       = Some ''authorization, x-client-info, apikey, content-type''
   \<and> filter (\<lambda>h. fst h \<noteq> ''Content-Type'') (headers (reply (serve e req now i tbl)))
       = corsHeaders
   \<and> (http_method req = ''OPTIONS'' \<longrightarrow> body (reply (serve e req now i tbl)) = None)"
  using serve_reply_shape [of req e now i tbl]
  by (auto simp add: json_response_def corsHeaders_def)

theorem cors_headers_on_every_response_witness:
  "body (reply (serve utc_env \<lparr>http_method = ''OPTIONS'', json_body = NotJson\<rparr> 7 2 [])) = None
   \<and> filter (\<lambda>h. fst h \<noteq> ''Content-Type'')
        (headers (reply (serve utc_env \<lparr>http_method = ''OPTIONS'', json_body = NotJson\<rparr> 7 2 [])))
       = corsHeaders"
  using cors_headers_on_every_response
    [of utc_env "\<lparr>http_method = ''OPTIONS'', json_body = NotJson\<rparr>" 7 2 "[]"]
  by simp



end
